theory Spec2Isabelle
  imports Complex_Main
begin

section \<open>Booking model (models/Booking.js)\<close>

text \<open>
  The Mongoose schema of a booking. Object ids are natural numbers, dates are
  millisecond timestamps, optional paths are \<open>option\<close>s. The enumerations carry the
  schema's values; \<open>PayPending\<close> is the payment status \<open>'pending'\<close>. The booking
  reference and the QR code are \<open>None\<close> in a document on which they have not been set:
  the route handler does not set them, the \<open>pre('save')\<close> hook does. Strings are the
  bytes of their UTF-8 encoding.
\<close>

datatype status = Pending | Confirmed | Cancelled | Completed | NoShow

datatype paymentStatus = PayPending | Paid | Refunded | Failed

record booking =
  bid :: nat
  user :: nat
  route :: nat
  schedule :: nat
  vehicle :: nat
  travelDate :: int
  seatNumber :: string
  fare :: real
  status :: status
  paymentStatus :: paymentStatus
  bookingReference :: "string option"
  cancellationReason :: "string option"
  cancelledAt :: "int option"
  cancelledBy :: "nat option"
  qrCode :: "string option"
  checkInTime :: "int option"
  checkOutTime :: "int option"

text \<open>
  What a JavaScript \<open>throw\<close> or a rejected promise carries: a plain \<open>Error\<close> with its
  message, a \<open>ReferenceError\<close> or \<open>TypeError\<close>, a Mongoose \<open>ValidationError\<close> with the
  messages of the paths that failed, in the order of the schema, or the duplicate-key error of a unique index, with the indexed path.
\<close>

datatype error =
    Error string
  | ReferenceError string
  | TypeError string
  | ValidationError "string list"
  | DuplicateKey string

subsection \<open>Instance methods\<close>

text \<open>
  Each method checks the status, throws or mutates \<open>this\<close>, and returns \<open>this.save()\<close>.
  The model returns the thrown error (\<open>Inl\<close>) or the mutated document that is handed
  to \<open>save\<close> (\<open>Inr\<close>); \<open>now\<close> is the value of \<open>new Date()\<close>.
\<close>

definition cancel :: "int \<Rightarrow> string option \<Rightarrow> nat \<Rightarrow> booking \<Rightarrow> error + booking" where
  "cancel now reason byUser b =
     (if status b = Completed then Inl (Error ''Cannot cancel completed booking'')
      else if status b = Cancelled then Inl (Error ''Booking already cancelled'')
      else Inr (b\<lparr>status := Cancelled, cancellationReason := reason,
                   cancelledAt := Some now, cancelledBy := Some byUser\<rparr>))"

definition confirm :: "booking \<Rightarrow> error + booking" where
  "confirm b =
     (if status b \<noteq> Pending then Inl (Error ''Only pending bookings can be confirmed'')
      else Inr (b\<lparr>status := Confirmed, paymentStatus := Paid\<rparr>))"

definition complete :: "int \<Rightarrow> booking \<Rightarrow> error + booking" where
  "complete now b =
     (if status b \<noteq> Confirmed then Inl (Error ''Only confirmed bookings can be completed'')
      else Inr (b\<lparr>status := Completed, checkOutTime := Some now\<rparr>))"

definition checkIn :: "int \<Rightarrow> booking \<Rightarrow> error + booking" where
  "checkIn now b =
     (if status b \<noteq> Confirmed then Inl (Error ''Only confirmed bookings can be checked in'')
      else Inr (b\<lparr>checkInTime := Some now\<rparr>))"

section \<open>Booking routes (routes/bookings.js)\<close>

text \<open>
  The collection is the list of its documents. \<open>findById\<close> returns the first document
  with the id; \<open>save_doc\<close> is \<open>save()\<close> on a document that was loaded from the
  collection: it replaces the stored document of the same id.
\<close>

type_synonym store = "booking list"

definition findById :: "store \<Rightarrow> nat \<Rightarrow> booking option" where
  "findById st i = find (\<lambda>b. bid b = i) st"

definition save_doc :: "store \<Rightarrow> booking \<Rightarrow> store" where
  "save_doc st b' = map (\<lambda>x. if bid x = bid b' then b' else x) st"

text \<open>
  The authenticated user that \<open>authenticateToken\<close> puts in \<open>req.user\<close>: its id and role.
\<close>

datatype role = Admin | User | Driver

record actor =
  uid :: nat
  role :: role

text \<open>
  A handler either answers with a status code, a message, an optional machine-readable
  code and optional data, or throws: the error then reaches \<open>asyncHandler\<close>, whose
  error middleware is not part of the sources.
\<close>

datatype response =
    Json nat string "string option" "booking option"
  | Thrown error

definition cancel_route :: "int \<Rightarrow> store \<Rightarrow> actor \<Rightarrow> nat \<Rightarrow> string option \<Rightarrow> response \<times> store" where
  "cancel_route now st a i reason =
     (case findById st i of
        None \<Rightarrow> (Json 404 ''Booking not found'' None None, st)
      | Some b \<Rightarrow>
          if user b \<noteq> uid a then (Json 403 ''Access denied'' None None, st)
          else (case cancel now reason (uid a) b of
                  Inl e \<Rightarrow> (Thrown e, st)
                | Inr b' \<Rightarrow> (Json 200 ''Booking cancelled successfully'' None (Some b'),
                             save_doc st b')))"

definition confirm_route :: "store \<Rightarrow> actor \<Rightarrow> nat \<Rightarrow> response \<times> store" where
  "confirm_route st a i =
     (case findById st i of
        None \<Rightarrow> (Json 404 ''Booking not found'' None None, st)
      | Some b \<Rightarrow>
          if user b \<noteq> uid a then (Json 403 ''Access denied'' None None, st)
          else (case confirm b of
                  Inl e \<Rightarrow> (Thrown e, st)
                | Inr b' \<Rightarrow> (Json 200 ''Booking confirmed successfully'' None (Some b'),
                             save_doc st b')))"

definition checkIn_route :: "int \<Rightarrow> store \<Rightarrow> actor \<Rightarrow> nat \<Rightarrow> response \<times> store" where
  "checkIn_route now st a i =
     (case findById st i of
        None \<Rightarrow> (Json 404 ''Booking not found'' None None, st)
      | Some b \<Rightarrow>
          if user b \<noteq> uid a then (Json 403 ''Access denied'' None None, st)
          else (case checkIn now b of
                  Inl e \<Rightarrow> (Thrown e, st)
                | Inr b' \<Rightarrow> (Json 200 ''Check-in successful'' None (Some b'),
                             save_doc st b')))"

text \<open>A booking used to run the handlers on concrete inputs.\<close>

definition sample_booking :: "status \<Rightarrow> booking" where
  "sample_booking s =
     \<lparr>bid = 1, user = 7, route = 3, schedule = 4, vehicle = 5, travelDate = 1741564800000,
      seatNumber = ''Seat 1'', fare = 20, status = s, paymentStatus = PayPending,
      bookingReference = Some ''STM82XYZABCDE'', cancellationReason = None,
      cancelledAt = None, cancelledBy = None, qrCode = Some ''qr-1'', checkInTime = None,
      checkOutTime = None\<rparr>"

section \<open>Creating a booking (POST /api/bookings)\<close>

text \<open>
  The catalog the handler reads: the ids of the stored routes, and the schedules, each
  with its route and its populated vehicle.
\<close>

record vehicle_doc =
  vehicle_id :: nat
  capacity :: nat

record schedule_doc =
  sched_id :: nat
  sched_route :: nat
  sched_vehicle :: vehicle_doc

record catalog =
  routes :: "nat list"
  schedules :: "schedule_doc list"

text \<open>
  The request body as the validators see it. A field that the validator parses is an
  \<open>option\<close>: \<open>None\<close> is a value that fails \<open>isMongoId\<close>, \<open>isISO8601\<close> or \<open>isNumeric\<close>,
  \<open>Some\<close> carries the parsed id, timestamp or number. The seat label is the raw string.
  The optional \<open>passengerDetails\<close> and \<open>specialRequests\<close> are absent from the requests
  modelled here.
\<close>

record body =
  routeId :: "nat option"
  scheduleId :: "nat option"
  req_travelDate :: "int option"
  req_seatNumber :: string
  req_fare :: "real option"

text \<open>
  The sanitizer \<open>trim()\<close> removes white space at both ends: every character that
  the regular expression \<open>\s\<close> matches, which is also what \<open>String.prototype.trim\<close> and
  \<open>parseInt\<close> skip. \<open>white_space\<close> lists these characters by the bytes of their UTF-8
  encoding: U+0009 to U+000D, U+0020, U+00A0, U+1680, U+2000 to U+200A, U+2028, U+2029,
  U+202F, U+205F, U+3000 and U+FEFF.
\<close>

definition white_space :: "nat list list" where
  "white_space =
     [[0x09], [0x0A], [0x0B], [0x0C], [0x0D], [0x20], [0xC2, 0xA0], [0xE1, 0x9A, 0x80],
      [0xE2, 0x80, 0x80], [0xE2, 0x80, 0x81], [0xE2, 0x80, 0x82], [0xE2, 0x80, 0x83],
      [0xE2, 0x80, 0x84], [0xE2, 0x80, 0x85], [0xE2, 0x80, 0x86], [0xE2, 0x80, 0x87],
      [0xE2, 0x80, 0x88], [0xE2, 0x80, 0x89], [0xE2, 0x80, 0x8A], [0xE2, 0x80, 0xA8],
      [0xE2, 0x80, 0xA9], [0xE2, 0x80, 0xAF], [0xE2, 0x81, 0x9F], [0xE3, 0x80, 0x80],
      [0xEF, 0xBB, 0xBF]]"

text \<open>
  The number of bytes of the entry of \<open>table\<close> with which the string begins, 0 when it
  begins with none; and the string without the entries at its beginning.
\<close>

definition ws_len :: "nat list list \<Rightarrow> string \<Rightarrow> nat" where
  "ws_len table s =
     (case find (\<lambda>w. take (length w) (map of_char s) = w) table of
        None \<Rightarrow> 0
      | Some w \<Rightarrow> length w)"

fun strip :: "nat list list \<Rightarrow> string \<Rightarrow> string" where
  "strip table [] = []"
| "strip table (c # cs) =
     (if ws_len table (c # cs) = 0 then c # cs
      else strip table (drop (ws_len table (c # cs) - 1) cs))"

definition ltrim :: "string \<Rightarrow> string" where
  "ltrim s = strip white_space s"

definition rtrim :: "string \<Rightarrow> string" where
  "rtrim s = rev (strip (map rev white_space) (rev s))"

definition trim :: "string \<Rightarrow> string" where
  "trim s = rtrim (ltrim s)"

text \<open>
  The values generated for a new document: its \<open>_id\<close>, and what the \<open>pre('save')\<close>
  hook computes from the clock, \<open>Math.random\<close> and \<open>uuidv4\<close>.
\<close>

record fresh =
  new_id :: nat
  new_reference :: string
  new_qrCode :: string

text \<open>
  The handler up to the seat check: validators (400), route and schedule lookups (404),
  the query for a pending or confirmed booking of the same schedule, date and seat
  (409), and \<open>new Booking({...})\<close> with the schema's defaults. The query compares the
  travel date as an instant, not as a calendar day. The handler sets neither the
  booking reference nor the QR code.
\<close>

definition findOne_seat :: "store \<Rightarrow> nat \<Rightarrow> int \<Rightarrow> string \<Rightarrow> booking option" where
  "findOne_seat st sid t seat =
     find (\<lambda>b. schedule b = sid \<and> travelDate b = t \<and> seatNumber b = seat
                \<and> (status b = Pending \<or> status b = Confirmed)) st"

definition check_phase :: "catalog \<Rightarrow> store \<Rightarrow> actor \<Rightarrow> body \<Rightarrow> fresh \<Rightarrow> response + booking" where
  "check_phase cat st a bd f =
     (case (routeId bd, scheduleId bd, req_travelDate bd, req_fare bd) of
        (Some rid, Some sid, Some t, Some fr) \<Rightarrow>
          (let seat = trim (req_seatNumber bd) in
           if seat = [] then Inl (Json 400 ''Validation failed'' None None)
           else if rid \<notin> set (routes cat) then Inl (Json 404 ''Route not found'' None None)
           else (case find (\<lambda>s. sched_id s = sid) (schedules cat) of
                   None \<Rightarrow> Inl (Json 404 ''Schedule not found or does not belong to this route''
                                  None None)
                 | Some s \<Rightarrow>
                     if sched_route s \<noteq> rid
                     then Inl (Json 404 ''Schedule not found or does not belong to this route''
                                 None None)
                     else (case findOne_seat st sid t seat of
                             Some existing \<Rightarrow>
                               Inl (Json 409 ''Seat already booked'' (Some ''SEAT_OCCUPIED'') None)
                           | None \<Rightarrow>
                               Inr \<lparr>bid = new_id f, user = uid a, route = rid, schedule = sid,
                                    vehicle = vehicle_id (sched_vehicle s), travelDate = t,
                                    seatNumber = seat, fare = fr, status = Pending,
                                    paymentStatus = PayPending,
                                    bookingReference = None,
                                    cancellationReason = None, cancelledAt = None,
                                    cancelledBy = None, qrCode = None,
                                    checkInTime = None, checkOutTime = None\<rparr>)))
      | _ \<Rightarrow> Inl (Json 400 ''Validation failed'' None None))"

text \<open>
  \<open>booking.save()\<close> on a new document. Mongoose validates the document first, and runs
  the \<open>pre('save')\<close> hooks of the schema only when the validation has passed. The
  validators of the paths that the handler fills are: \<open>min: [new Date(), ...]\<close> on the
  travel date, where \<open>new Date()\<close> was evaluated once, when the schema was defined
  (\<open>schemaDate\<close>); \<open>required\<close> on the seat number; \<open>min: 0\<close> on the fare; and
  \<open>required: true\<close> on the booking reference, which an absent or empty string fails.
  All failures are collected in one \<open>ValidationError\<close>.
\<close>

definition blank :: "string option \<Rightarrow> bool" where
  "blank v = (case v of None \<Rightarrow> True | Some s \<Rightarrow> s = [])"

definition validate :: "int \<Rightarrow> booking \<Rightarrow> string list" where
  "validate schemaDate b =
     (if travelDate b < schemaDate then [''Travel date cannot be in the past''] else [])
     @ (if seatNumber b = [] then [''Seat number is required''] else [])
     @ (if fare b < 0 then [''Fare must be non-negative''] else [])
     @ (if blank (bookingReference b) then [''Path `bookingReference` is required.''] else [])"

text \<open>
  The \<open>pre('save')\<close> hook of the schema: it sets the booking reference and the QR code
  where \<open>!this.bookingReference\<close> and \<open>!this.qrCode\<close> hold.
\<close>

definition pre_save :: "fresh \<Rightarrow> booking \<Rightarrow> booking" where
  "pre_save f b =
     b\<lparr>bookingReference :=
         (if blank (bookingReference b) then Some (new_reference f) else bookingReference b),
       qrCode := (if blank (qrCode b) then Some (new_qrCode f) else qrCode b)\<rparr>"

text \<open>
  The storage layer inserts the document; the unique indexes of the collection are
  those on \<open>_id\<close>, \<open>bookingReference\<close> and \<open>qrCode\<close>. Every index declared with
  \<open>bookingSchema.index\<close> is a plain, non-unique index and rejects nothing.
\<close>

definition insert_doc :: "store \<Rightarrow> booking \<Rightarrow> error + store" where
  "insert_doc st b =
     (if bid b \<in> set (map bid st) then Inl (DuplicateKey ''_id'')
      else if bookingReference b \<in> set (map bookingReference st)
        then Inl (DuplicateKey ''bookingReference'')
      else if qrCode b \<in> set (map qrCode st) then Inl (DuplicateKey ''qrCode'')
      else Inr (st @ [b]))"

definition save_phase :: "int \<Rightarrow> fresh \<Rightarrow> store \<Rightarrow> booking \<Rightarrow> response \<times> store" where
  "save_phase schemaDate f st b =
     (if validate schemaDate b \<noteq> [] then (Thrown (ValidationError (validate schemaDate b)), st)
      else (case insert_doc st (pre_save f b) of
              Inl e \<Rightarrow> (Thrown e, st)
            | Inr st' \<Rightarrow>
                (Json 201 ''Booking created successfully'' None (Some (pre_save f b)), st')))"

text \<open>One request handled without interruption.\<close>

definition create_route ::
  "int \<Rightarrow> catalog \<Rightarrow> store \<Rightarrow> actor \<Rightarrow> body \<Rightarrow> fresh \<Rightarrow> response \<times> store" where
  "create_route schemaDate cat st a bd f =
     (case check_phase cat st a bd f of
        Inl r \<Rightarrow> (r, st)
      | Inr b \<Rightarrow> save_phase schemaDate f st b)"

subsection \<open>Requests in flight together\<close>

text \<open>
  The handler awaits the seat query and, later, the save: another request can run
  between the two. A request in flight is at its start, past the seat check with its
  document built, or finished. A schedule is the list of the indices of the requests
  that take the next step.
\<close>

datatype proc = Start actor body fresh | Checked booking fresh | Finished response

definition proc_step :: "int \<Rightarrow> catalog \<Rightarrow> store \<Rightarrow> proc \<Rightarrow> proc \<times> store" where
  "proc_step schemaDate cat st p =
     (case p of
        Start a bd f \<Rightarrow>
          (case check_phase cat st a bd f of
             Inl r \<Rightarrow> (Finished r, st)
           | Inr b \<Rightarrow> (Checked b f, st))
      | Checked b f \<Rightarrow>
          (case save_phase schemaDate f st b of (r, st') \<Rightarrow> (Finished r, st'))
      | Finished r \<Rightarrow> (Finished r, st))"

fun run :: "int \<Rightarrow> catalog \<Rightarrow> nat list \<Rightarrow> proc list \<times> store \<Rightarrow> proc list \<times> store" where
  "run schemaDate cat [] cfg = cfg"
| "run schemaDate cat (i # is) (ps, st) =
     (if i < length ps
      then (case proc_step schemaDate cat st (ps ! i) of
              (p', st') \<Rightarrow> run schemaDate cat is (ps[i := p'], st'))
      else run schemaDate cat is (ps, st))"

subsection \<open>The seat-uniqueness invariant\<close>

text \<open>
  A booking holds its seat while it is pending or confirmed. The key of a seat is the
  one of the handler's query: schedule, instant of the travel date, and label.
  \<open>day_of\<close> is the calendar day (UTC) of an instant, of 86400000 milliseconds.
\<close>

definition active :: "booking \<Rightarrow> bool" where
  "active b = (status b = Pending \<or> status b = Confirmed)"

definition seat_key :: "booking \<Rightarrow> nat \<times> int \<times> string" where
  "seat_key b = (schedule b, travelDate b, seatNumber b)"




text \<open>A catalog, an actor and requests used to run the handlers on concrete inputs.\<close>

definition sample_catalog :: catalog where
  "sample_catalog =
     \<lparr>routes = [3],
      schedules = [\<lparr>sched_id = 4, sched_route = 3,
                    sched_vehicle = \<lparr>vehicle_id = 5, capacity = 50\<rparr>\<rparr>]\<rparr>"

definition sample_body :: "string \<Rightarrow> int \<Rightarrow> body" where
  "sample_body seat t =
     \<lparr>routeId = Some 3, scheduleId = Some 4, req_travelDate = Some t,
      req_seatNumber = seat, req_fare = Some 20\<rparr>"

definition fresh1 :: fresh where
  "fresh1 = \<lparr>new_id = 1, new_reference = ''STM82XYZABCDE'', new_qrCode = ''qr-1''\<rparr>"

definition fresh2 :: fresh where
  "fresh2 = \<lparr>new_id = 2, new_reference = ''STM82XYZFGHIJ'', new_qrCode = ''qr-2''\<rparr>"

definition alice :: actor where
  "alice = \<lparr>uid = 7, role = User\<rparr>"

definition bob :: actor where
  "bob = \<lparr>uid = 8, role = User\<rparr>"

text \<open>
  The document that the handler builds for user \<open>u\<close>, seat \<open>seat\<close> and date \<open>t\<close> from a
  request made with \<open>sample_body\<close> on \<open>sample_catalog\<close>, and a stored booking with the
  same contents, which carries a reference and a QR code.
\<close>

definition sample_draft :: "nat \<Rightarrow> string \<Rightarrow> int \<Rightarrow> fresh \<Rightarrow> booking" where
  "sample_draft u seat t f =
     \<lparr>bid = new_id f, user = u, route = 3, schedule = 4, vehicle = 5, travelDate = t,
      seatNumber = seat, fare = 20, status = Pending, paymentStatus = PayPending,
      bookingReference = None, cancellationReason = None, cancelledAt = None,
      cancelledBy = None, qrCode = None, checkInTime = None, checkOutTime = None\<rparr>"

definition sample_new_booking :: "nat \<Rightarrow> string \<Rightarrow> int \<Rightarrow> fresh \<Rightarrow> booking" where
  "sample_new_booking u seat t f =
     \<lparr>bid = new_id f, user = u, route = 3, schedule = 4, vehicle = 5, travelDate = t,
      seatNumber = seat, fare = 20, status = Pending, paymentStatus = PayPending,
      bookingReference = Some (new_reference f), cancellationReason = None,
      cancelledAt = None, cancelledBy = None, qrCode = Some (new_qrCode f),
      checkInTime = None, checkOutTime = None\<rparr>"

section \<open>Forecast service (services/forecastService.js)\<close>

text \<open>
  JavaScript numbers are modelled as mathematical numbers: integers where the code
  holds integers, reals where it divides or draws from \<open>Math.random\<close>. \<open>NaN\<close> and the
  infinities have no counterpart, so the results on division are those of the code
  where the divisor is not zero. \<open>Math.round\<close> rounds half up.
\<close>

definition Math_round :: "real \<Rightarrow> int" where
  "Math_round x = \<lfloor>x + 1 / 2\<rfloor>"

text \<open>
  A \<open>moment\<close> value, by what the service reads from it: \<open>month()\<close> (0 is January),
  \<open>day()\<close> (0 is Sunday), and its calendar day as a day number, which is what
  \<open>isBetween(start, end, 'day', '[]')\<close> compares. The formatted strings of a response
  are kept as the moment itself.
\<close>

record moment =
  m_ordinal :: int
  m_month :: nat
  m_day :: nat

text \<open>A historical record \<open>{route, date, hour, bookings, capacity}\<close>.\<close>

record sample =
  s_route :: string
  s_date :: moment
  s_hour :: int
  s_bookings :: int
  s_capacity :: int

text \<open>The prediction object \<open>{route, datetime, predicted_count, capacity, ...}\<close>.\<close>

record prediction =
  p_route :: string
  datetime :: moment
  predicted_count :: int
  p_capacity :: int
  utilization_pct :: int
  confidence :: real
  explanation :: "string list"

text \<open>
  The \<open>hour\<close> argument is untyped: it is \<open>undefined\<close>, a number or a string (Express
  delivers every query parameter that is present as a string).
\<close>

datatype jsval = Undefined | JNum int | JStr string

definition truthy :: "jsval \<Rightarrow> bool" where
  "truthy v = (case v of Undefined \<Rightarrow> False | JNum n \<Rightarrow> n \<noteq> 0 | JStr s \<Rightarrow> s \<noteq> [])"

text \<open>
  \<open>parseInt\<close> without a radix: leading white space, an optional sign, an optional
  \<open>0x\<close> prefix, then the longest run of digits; \<open>None\<close> is \<open>NaN\<close>.
\<close>

definition digit_of :: "nat \<Rightarrow> char \<Rightarrow> nat option" where
  "digit_of radix c =
     (let n = (of_char c :: nat);
          v = (if 48 \<le> n \<and> n \<le> 57 then Some (n - 48)
               else if 97 \<le> n \<and> n \<le> 122 then Some (n - 87)
               else if 65 \<le> n \<and> n \<le> 90 then Some (n - 55)
               else None)
      in case v of None \<Rightarrow> None | Some d \<Rightarrow> if d < radix then Some d else None)"

fun parse_digits :: "nat \<Rightarrow> string \<Rightarrow> nat option \<Rightarrow> nat option" where
  "parse_digits radix [] acc = acc"
| "parse_digits radix (c # cs) acc =
     (case digit_of radix c of
        None \<Rightarrow> acc
      | Some d \<Rightarrow>
          parse_digits radix cs (Some (case acc of None \<Rightarrow> d | Some a \<Rightarrow> a * radix + d)))"

definition parseInt_string :: "string \<Rightarrow> int option" where
  "parseInt_string s =
     (let s0 = ltrim s;
          neg = (s0 \<noteq> [] \<and> hd s0 = CHR ''-'');
          s1 = (if s0 \<noteq> [] \<and> (hd s0 = CHR ''-'' \<or> hd s0 = CHR ''+'') then tl s0 else s0);
          hex = (take 2 s1 = ''0x'' \<or> take 2 s1 = ''0X'');
          s2 = (if hex then drop 2 s1 else s1)
      in case parse_digits (if hex then 16 else 10) s2 None of
           None \<Rightarrow> None
         | Some n \<Rightarrow> Some (if neg then - int n else int n))"

definition parseInt :: "jsval \<Rightarrow> int option" where
  "parseInt v = (case v of Undefined \<Rightarrow> None | JNum n \<Rightarrow> Some n | JStr s \<Rightarrow> parseInt_string s)"

text \<open>\<open>hour ? parseInt(hour) : 9\<close>\<close>

definition targetHour :: "jsval \<Rightarrow> int option" where
  "targetHour hour = (if truthy hour then parseInt hour else Some 9)"

text \<open>The sums of \<open>reduce\<close>, and the means taken from them.\<close>

definition sum_bookings :: "sample list \<Rightarrow> int" where
  "sum_bookings xs = foldl (\<lambda>sum d. sum + s_bookings d) 0 xs"

definition sum_capacity :: "sample list \<Rightarrow> int" where
  "sum_capacity xs = foldl (\<lambda>sum d. sum + s_capacity d) 0 xs"

definition calculateTrend :: "sample list \<Rightarrow> real" where
  "calculateTrend data =
     (if length data < 2 then 0
      else let recent = drop (length data - 7) data;
               older = take (length data - 7) data
           in if length recent = 0 \<or> length older = 0 then 0
              else real_of_int (sum_bookings recent) / real (length recent)
                   - real_of_int (sum_bookings older) / real (length older))"

definition getSeasonalFactor :: "moment \<Rightarrow> int" where
  "getSeasonalFactor date =
     (let month = m_month date; dayOfWeek = m_day date
      in if month = 11 \<or> month = 0 then 5
         else if month \<ge> 4 \<and> month \<le> 8 then - 3
         else if dayOfWeek = 0 \<or> dayOfWeek = 6 then - 5
         else 0)"

definition generateExplanation :: "int \<Rightarrow> real \<Rightarrow> real \<Rightarrow> moment \<Rightarrow> string list" where
  "generateExplanation predictedBookings cap trend date =
     (if trend > 5 then [''Increasing ridership trend detected'']
      else if trend < - 5 then [''Decreasing ridership trend detected'']
      else [])
     @ (if m_day date = 0 \<or> m_day date = 6
        then [''Weekend typically shows 30% lower ridership'']
        else [''Weekday peak hours expected''])
     @ (if real_of_int predictedBookings / cap > 8 / 10
        then [''High utilization expected - consider additional capacity'']
        else [])
     @ [''Weather and events may affect actual ridership'']"

text \<open>
  \<open>Math.random\<close> is a stream \<open>rnd\<close>: \<open>rnd k\<close> is the value of the call number \<open>k\<close> of the
  request, each in the interval from 0 (included) to 1 (excluded).
\<close>

definition random_source :: "(nat \<Rightarrow> real) \<Rightarrow> bool" where
  "random_source rnd = (\<forall>k. 0 \<le> rnd k \<and> rnd k < 1)"

definition generateMockPrediction :: "(nat \<Rightarrow> real) \<Rightarrow> string \<Rightarrow> moment \<Rightarrow> prediction" where
  "generateMockPrediction rnd rt date =
     (let baseBookings = 20 + rnd 0 * 30;
          cap = 50 + \<lfloor>rnd 1 * 50\<rfloor>;
          utilization = Math_round (baseBookings / real_of_int cap * 100)
      in \<lparr>p_route = rt, datetime = date, predicted_count = \<lfloor>baseBookings\<rfloor>,
          p_capacity = cap, utilization_pct = min 100 utilization,
          confidence = 70 + rnd 2 * 20,
          explanation = [''Based on historical patterns for this route'',
                         ''Weekend traffic typically shows 20% higher utilization'',
                         ''Weather conditions may affect ridership'']\<rparr>)"

text \<open>
  \<open>getPrediction\<close>. No operation of its \<open>try\<close> block throws, so the \<open>catch\<close> branch is
  never entered; \<open>generateMockPrediction\<close> does not read its \<open>hour\<close> argument.
\<close>

definition getPrediction ::
  "(nat \<Rightarrow> real) \<Rightarrow> sample list \<Rightarrow> string \<Rightarrow> moment \<Rightarrow> jsval \<Rightarrow> prediction" where
  "getPrediction rnd historicalData rt date hour =
     (let targetDate = date;
          tHour = targetHour hour;
          routeData = filter (\<lambda>d. s_route d = rt) historicalData
      in if length routeData = 0 then generateMockPrediction rnd rt date
         else
           let sameDayOfWeek = m_day targetDate;
               sameHourData = filter (\<lambda>d. m_day (s_date d) = sameDayOfWeek
                                            \<and> Some (s_hour d) = tHour) routeData
           in if length sameHourData = 0 then generateMockPrediction rnd rt date
              else
                let avgBookings = real_of_int (sum_bookings sameHourData)
                                    / real (length sameHourData);
                    avgCapacity = real_of_int (sum_capacity sameHourData)
                                    / real (length sameHourData);
                    trend = calculateTrend sameHourData;
                    seasonalFactor = getSeasonalFactor targetDate;
                    predictedBookings = max 0 \<lfloor>avgBookings + trend + (rnd 0 - 1 / 2) * 10
                                                + real_of_int seasonalFactor\<rfloor>;
                    utilization = Math_round (real_of_int predictedBookings / avgCapacity * 100);
                    conf = max 60 (100 - \<bar>trend\<bar> * 2)
                in \<lparr>p_route = rt, datetime = targetDate,
                    predicted_count = predictedBookings,
                    p_capacity = \<lfloor>avgCapacity\<rfloor>,
                    utilization_pct = min 100 utilization,
                    confidence = min 95 conf,
                    explanation = generateExplanation predictedBookings avgCapacity trend
                                    targetDate\<rparr>)"

subsection \<open>The controller of the service and the proxy of the backend\<close>

text \<open>
  \<open>predict\<close> (controllers/forecastController.js) reads \<open>route\<close>, \<open>date\<close> and \<open>hour\<close>
  from the query string: each is absent or a string; the date is given parsed. The
  backend route \<open>GET /api/forecast/predict\<close> (routes/forecast.js) forwards the request
  and, when the call fails, answers with its own \<open>mockData\<close>.
\<close>

datatype predict_reply =
    PredictOk prediction "string option"
  | PredictBad nat string

definition predict ::
  "(nat \<Rightarrow> real) \<Rightarrow> sample list \<Rightarrow> string option \<Rightarrow> moment option \<Rightarrow> string option
     \<Rightarrow> predict_reply" where
  "predict rnd historicalData rt date hour =
     (case (rt, date) of
        (Some r, Some d) \<Rightarrow>
          if r = [] then PredictBad 400 ''Route and date are required''
          else PredictOk (getPrediction rnd historicalData r d
                            (case hour of None \<Rightarrow> Undefined | Some h \<Rightarrow> JStr h)) None
      | _ \<Rightarrow> PredictBad 400 ''Route and date are required'')"

definition mockData :: "(nat \<Rightarrow> real) \<Rightarrow> string \<Rightarrow> moment \<Rightarrow> prediction" where
  "mockData rnd rt date =
     \<lparr>p_route = rt, datetime = date,
      predicted_count = \<lfloor>rnd 0 * 50\<rfloor> + 10,
      p_capacity = 60,
      utilization_pct = \<lfloor>rnd 1 * 80\<rfloor> + 20,
      confidence = real_of_int (\<lfloor>rnd 2 * 30\<rfloor> + 70),
      explanation = [''Based on historical patterns for this route'',
                     ''Weekend traffic typically shows 20% higher utilization'',
                     ''Weather conditions may affect ridership'']\<rparr>"

text \<open>
  \<open>upstream\<close> is the outcome of the \<open>axios.get\<close>: the data of a successful answer, or
  \<open>None\<close> when the call throws (no answer within five seconds, or an error status).
\<close>

definition forecast_predict_route ::
  "(nat \<Rightarrow> real) \<Rightarrow> prediction option \<Rightarrow> string option \<Rightarrow> moment option \<Rightarrow> predict_reply" where
  "forecast_predict_route rnd upstream rt date =
     (case (rt, date) of
        (Some r, Some d) \<Rightarrow>
          if r = [] then PredictBad 400 ''Route and date are required''
          else (case upstream of
                  Some data \<Rightarrow> PredictOk data None
                | None \<Rightarrow> PredictOk (mockData rnd r d)
                            (Some ''Using mock data - forecast service unavailable''))
      | _ \<Rightarrow> PredictBad 400 ''Route and date are required'')"

subsection \<open>Analytics\<close>

text \<open>
  A point \<open>{hour, utilization, bookings}\<close> of the heat map and of the hourly trend, or
  \<open>{day, utilization, bookings}\<close> of the weekly trend: \<open>p_index\<close> is the hour or the day.
\<close>

record point =
  p_index :: nat
  p_utilization :: int
  p_bookings :: int

record utilization_summary =
  average :: int
  peak :: int
  low :: int

record analytics =
  a_routeId :: string
  period :: "moment \<times> moment"
  utilization :: utilization_summary
  heatmap :: "(string \<times> point list) list"
  weekly :: "point list"
  hourly :: "point list"
  recommendations :: "string list"

definition day_names :: "string list" where
  "day_names = [''monday'', ''tuesday'', ''wednesday'', ''thursday'', ''friday'',
                ''saturday'', ''sunday'']"

text \<open>The point computed from the records \<open>xs\<close> of one hour or one day.\<close>

definition mean_point :: "nat \<Rightarrow> sample list \<Rightarrow> point" where
  "mean_point i xs =
     (let avgBookings = (if length xs > 0
                         then real_of_int (sum_bookings xs) / real (length xs) else 0);
          avgCapacity = (if length xs > 0
                         then real_of_int (sum_capacity xs) / real (length xs) else 50)
      in \<lparr>p_index = i,
          p_utilization = Math_round (avgBookings / avgCapacity * 100),
          p_bookings = Math_round avgBookings\<rparr>)"

definition generateHeatmapData :: "sample list \<Rightarrow> (string \<times> point list) list" where
  "generateHeatmapData data =
     map (\<lambda>day. (day, map (\<lambda>hour. mean_point hour (filter (\<lambda>d. s_hour d = int hour) data))
                         [0..<24]))
         day_names"

definition generateWeeklyTrend :: "sample list \<Rightarrow> point list" where
  "generateWeeklyTrend data =
     map (\<lambda>day. mean_point day (filter (\<lambda>d. m_day (s_date d) = day) data)) [0..<7]"

text \<open>
  \<open>Array.prototype.map\<close> with a callback that may throw: the first exception ends the
  traversal.
\<close>

fun map_throw :: "('a \<Rightarrow> error + 'b) \<Rightarrow> 'a list \<Rightarrow> error + 'b list" where
  "map_throw f [] = Inr []"
| "map_throw f (x # xs) =
     (case f x of
        Inl e \<Rightarrow> Inl e
      | Inr y \<Rightarrow> (case map_throw f xs of Inl e \<Rightarrow> Inl e | Inr ys \<Rightarrow> Inr (y # ys)))"

text \<open>
  The callback of \<open>generateHourlyTrend\<close>. Its mean capacity divides by
  \<open>dayData.length\<close>, and no \<open>dayData\<close> is in scope: when the hour has records, evaluating
  that branch of the conditional throws a \<open>ReferenceError\<close>; when it has none, the
  branch is not evaluated and the capacity is 50.
\<close>

definition hourly_point :: "sample list \<Rightarrow> nat \<Rightarrow> error + point" where
  "hourly_point data hour =
     (let hourData = filter (\<lambda>d. s_hour d = int hour) data;
          avgBookings = (if length hourData > 0
                         then real_of_int (sum_bookings hourData) / real (length hourData)
                         else 0)
      in if length hourData > 0 then Inl (ReferenceError ''dayData is not defined'')
         else Inr \<lparr>p_index = hour,
                   p_utilization = Math_round (avgBookings / 50 * 100),
                   p_bookings = Math_round avgBookings\<rparr>)"

definition generateHourlyTrend :: "sample list \<Rightarrow> error + point list" where
  "generateHourlyTrend data = map_throw (hourly_point data) [0..<24]"

text \<open>Decimal digits of a number, for the template strings of \<open>getPeakHourRanges\<close>.\<close>

fun show_nat :: "nat \<Rightarrow> string" where
  "show_nat n =
     (if n < 10 then [char_of (48 + n)]
      else show_nat (n div 10) @ [char_of (48 + n mod 10)])"

definition hour_range :: "nat \<Rightarrow> nat \<Rightarrow> string" where
  "hour_range start end = show_nat start @ '':00-'' @ show_nat (end + 1) @ '':00''"

fun peak_loop :: "point list \<Rightarrow> nat \<Rightarrow> nat \<Rightarrow> string list \<Rightarrow> string list" where
  "peak_loop [] start end ranges = ranges @ [hour_range start end]"
| "peak_loop (p # ps) start end ranges =
     (if p_index p = end + 1 then peak_loop ps start (p_index p) ranges
      else peak_loop ps (p_index p) (p_index p) (ranges @ [hour_range start end]))"

definition getPeakHourRanges :: "point list \<Rightarrow> error + string list" where
  "getPeakHourRanges peakHours =
     (case peakHours of
        [] \<Rightarrow> Inl (TypeError ''Cannot read properties of undefined'')
      | p # ps \<Rightarrow> Inr (peak_loop ps (p_index p) (p_index p) []))"

text \<open>\<open>ranges.join(', ')\<close>\<close>

fun join :: "string list \<Rightarrow> string" where
  "join [] = []"
| "join [x] = x"
| "join (x # y # zs) = x @ '', '' @ join (y # zs)"

definition generateRecommendations :: "real \<Rightarrow> sample list \<Rightarrow> error + string list" where
  "generateRecommendations avgUtilization data =
     (let r1 = (if avgUtilization > 80
                then [''High utilization detected - consider increasing capacity''] else []);
          r2 = (if avgUtilization < 30
                then [''Low utilization - consider optimizing schedule''] else [])
      in case generateHourlyTrend data of
           Inl e \<Rightarrow> Inl e
         | Inr hourlyData \<Rightarrow>
             (let peakHours = filter (\<lambda>h. p_utilization h > 70) hourlyData
              in if length peakHours > 0
                 then (case getPeakHourRanges peakHours of
                         Inl e \<Rightarrow> Inl e
                       | Inr peakHourRanges \<Rightarrow>
                           Inr (r1 @ r2
                                @ [''Peak utilization during: '' @ join peakHourRanges]
                                @ [''Monitor weather and events for demand fluctuations'']))
                 else Inr (r1 @ r2
                           @ [''Monitor weather and events for demand fluctuations''])))"

text \<open>
  The mock structure. The calls of \<open>Math.random\<close> are numbered in the order of
  evaluation: two for each of the 7 times 24 cells of the heat map, then two for each
  of the 7 points of the weekly trend, then two for each of the 24 points of the hourly
  trend.
\<close>

definition generateMockHeatmap :: "(nat \<Rightarrow> real) \<Rightarrow> (string \<times> point list) list" where
  "generateMockHeatmap rnd =
     map (\<lambda>(i, day).
            (day, map (\<lambda>hour. \<lparr>p_index = hour,
                                p_utilization = \<lfloor>rnd (2 * (24 * i + hour)) * 100\<rfloor>,
                                p_bookings = \<lfloor>rnd (2 * (24 * i + hour) + 1) * 50\<rfloor> + 10\<rparr>)
                      [0..<24]))
         (zip [0..<7] day_names)"

definition generateMockWeeklyTrend :: "(nat \<Rightarrow> real) \<Rightarrow> point list" where
  "generateMockWeeklyTrend rnd =
     map (\<lambda>i. \<lparr>p_index = i,
               p_utilization = \<lfloor>rnd (2 * i) * 60\<rfloor> + 20,
               p_bookings = \<lfloor>rnd (2 * i + 1) * 100\<rfloor> + 20\<rparr>) [0..<7]"

definition generateMockHourlyTrend :: "(nat \<Rightarrow> real) \<Rightarrow> point list" where
  "generateMockHourlyTrend rnd =
     map (\<lambda>i. \<lparr>p_index = i,
               p_utilization = \<lfloor>rnd (2 * i) * 80\<rfloor> + 10,
               p_bookings = \<lfloor>rnd (2 * i + 1) * 30\<rfloor> + 5\<rparr>) [0..<24]"

text \<open>The clock: \<open>moment()\<close> and \<open>moment().subtract(30, 'days')\<close>.\<close>

record clock =
  today :: moment
  thirtyDaysAgo :: moment

definition generateMockAnalytics :: "clock \<Rightarrow> (nat \<Rightarrow> real) \<Rightarrow> analytics" where
  "generateMockAnalytics clk rnd =
     \<lparr>a_routeId = ''mock-route'',
      period = (thirtyDaysAgo clk, today clk),
      utilization = \<lparr>average = 65, peak = 85, low = 35\<rparr>,
      heatmap = generateMockHeatmap rnd,
      weekly = generateMockWeeklyTrend (\<lambda>k. rnd (336 + k)),
      hourly = generateMockHourlyTrend (\<lambda>k. rnd (350 + k)),
      recommendations =
        [''Consider adding more vehicles during peak hours (7-9 AM, 5-7 PM)'',
         ''Route shows consistent high utilization on weekdays'',
         ''Weekend ridership is 40% lower than weekdays'']\<rparr>"

definition isBetween :: "moment \<Rightarrow> moment \<Rightarrow> moment \<Rightarrow> bool" where
  "isBetween d start end = (m_ordinal start \<le> m_ordinal d \<and> m_ordinal d \<le> m_ordinal end)"

text \<open>
  The \<open>try\<close> block of \<open>getAnalytics\<close>: the fields of the returned object are evaluated
  in the order in which they are written, so an exception of the hourly trend
  leaves the block before the recommendations are computed.
\<close>

definition getAnalytics_try ::
  "clock \<Rightarrow> (nat \<Rightarrow> real) \<Rightarrow> sample list \<Rightarrow> string \<Rightarrow> moment option \<Rightarrow> moment option
     \<Rightarrow> error + analytics" where
  "getAnalytics_try clk rnd historicalData rid startDate endDate =
     (let start = (case startDate of Some s \<Rightarrow> s | None \<Rightarrow> thirtyDaysAgo clk);
          end = (case endDate of Some e \<Rightarrow> e | None \<Rightarrow> today clk);
          routeData = filter (\<lambda>d. isBetween (s_date d) start end) historicalData
      in if length routeData = 0 then Inr (generateMockAnalytics clk rnd)
         else
           let totalBookings = sum_bookings routeData;
               avgCapacity = real_of_int (sum_capacity routeData) / real (length routeData);
               avgUtilization = real_of_int totalBookings
                                  / (real (length routeData) * avgCapacity) * 100
           in case generateHourlyTrend routeData of
                Inl e \<Rightarrow> Inl e
              | Inr hourlyTrend \<Rightarrow>
                  (case generateRecommendations avgUtilization routeData of
                     Inl e \<Rightarrow> Inl e
                   | Inr recs \<Rightarrow>
                       Inr \<lparr>a_routeId = rid,
                            period = (start, end),
                            utilization =
                              \<lparr>average = Math_round avgUtilization,
                               peak = Math_round (avgUtilization * (13 / 10)),
                               low = Math_round (avgUtilization * (7 / 10))\<rparr>,
                            heatmap = generateHeatmapData routeData,
                            weekly = generateWeeklyTrend routeData,
                            hourly = hourlyTrend,
                            recommendations = recs\<rparr>))"

text \<open>\<open>getAnalytics\<close>: the \<open>catch\<close> block answers every exception with the mock.\<close>

definition getAnalytics ::
  "clock \<Rightarrow> (nat \<Rightarrow> real) \<Rightarrow> sample list \<Rightarrow> string \<Rightarrow> moment option \<Rightarrow> moment option
     \<Rightarrow> analytics" where
  "getAnalytics clk rnd historicalData rid startDate endDate =
     (case getAnalytics_try clk rnd historicalData rid startDate endDate of
        Inl e \<Rightarrow> generateMockAnalytics clk rnd
      | Inr a \<Rightarrow> a)"

text \<open>
  What a response of the analytics always has: seven rows of 24 cells in the heat map,
  seven points of the weekly trend, 24 points of the hourly trend, and at least one
  recommendation.
\<close>

definition analytics_valid :: "analytics \<Rightarrow> bool" where
  "analytics_valid a =
     (length (heatmap a) = 7 \<and> list_all (\<lambda>row. length (snd row) = 24) (heatmap a)
      \<and> length (weekly a) = 7 \<and> length (hourly a) = 24 \<and> recommendations a \<noteq> [])"

text \<open>
  Inputs used to run the service on concrete values: a random source that always
  returns the same number, Monday 2025-03-10, Wednesday 2025-11-12 and Saturday
  2025-12-06, and data sets of one record.
\<close>

definition const_rnd :: "real \<Rightarrow> nat \<Rightarrow> real" where
  "const_rnd x k = x"

definition monday :: moment where
  "monday = \<lparr>m_ordinal = 20157, m_month = 2, m_day = 1\<rparr>"

definition november_wednesday :: moment where
  "november_wednesday = \<lparr>m_ordinal = 20404, m_month = 10, m_day = 3\<rparr>"

definition december_saturday :: moment where
  "december_saturday = \<lparr>m_ordinal = 20428, m_month = 11, m_day = 6\<rparr>"

definition one_record :: "int \<Rightarrow> int \<Rightarrow> sample list" where
  "one_record h c =
     [\<lparr>s_route = ''R'', s_date = monday, s_hour = h, s_bookings = 10, s_capacity = c\<rparr>]"

definition sample_clock :: clock where
  "sample_clock =
     \<lparr>today = monday, thirtyDaysAgo = \<lparr>m_ordinal = 20127, m_month = 1, m_day = 6\<rparr>\<rparr>"

section \<open>Lifecycle theorems\<close>







section \<open>Ownership\<close>

text \<open>
  C4, as the code has it. The three handlers answer 404 when the booking does not exist;
  when it exists and its user is not the actor they answer 403 and leave the collection
  as it was, whatever the actor's role; the owner is never answered 403.
\<close>

theorem ownership_rule:
  "(findById st i = None \<longrightarrow>
      cancel_route now st a i reason = (Json 404 ''Booking not found'' None None, st)
    \<and> confirm_route st a i = (Json 404 ''Booking not found'' None None, st)
    \<and> checkIn_route now st a i = (Json 404 ''Booking not found'' None None, st))
 \<and> (\<forall>b. findById st i = Some b \<and> user b \<noteq> uid a \<longrightarrow>
      cancel_route now st a i reason = (Json 403 ''Access denied'' None None, st)
    \<and> confirm_route st a i = (Json 403 ''Access denied'' None None, st)
    \<and> checkIn_route now st a i = (Json 403 ''Access denied'' None None, st))
 \<and> (\<forall>b. findById st i = Some b \<and> user b = uid a \<longrightarrow>
      fst (cancel_route now st a i reason) \<noteq> Json 403 ''Access denied'' None None
    \<and> fst (confirm_route st a i) \<noteq> Json 403 ''Access denied'' None None
    \<and> fst (checkIn_route now st a i) \<noteq> Json 403 ''Access denied'' None None)"
  by (auto simp: confirm_route_def checkIn_route_def cancel_route_def split: sum.splits)

theorem ownership_rule_witness:
  "findById [sample_booking Pending] 1 = Some (sample_booking Pending)
   \<and> user (sample_booking Pending) \<noteq> uid \<lparr>uid = 8, role = User\<rparr>
   \<and> confirm_route [sample_booking Pending] \<lparr>uid = 8, role = User\<rparr> 1
       = (Json 403 ''Access denied'' None None, [sample_booking Pending])
   \<and> findById [sample_booking Pending] 2 = None
   \<and> confirm_route [sample_booking Pending] \<lparr>uid = 8, role = User\<rparr> 2
       = (Json 404 ''Booking not found'' None None, [sample_booking Pending])"
  using ownership_rule [of "[sample_booking Pending]" 1 5 "\<lparr>uid = 8, role = User\<rparr>" None]
        ownership_rule [of "[sample_booking Pending]" 2 5 "\<lparr>uid = 8, role = User\<rparr>" None]
  by (simp add: findById_def sample_booking_def)

text \<open>
  C4 as stated fails for an administrator who does not own the booking: the request is
  answered 403.
\<close>

theorem admin_cancel_counterexample:
  "cancel_route 5 [sample_booking Pending] \<lparr>uid = 99, role = Admin\<rparr> 1 None
   = (Json 403 ''Access denied'' None None, [sample_booking Pending])"
  by (simp add: cancel_route_def findById_def sample_booking_def)

section \<open>Reservation theorems\<close>

text \<open>The seat query, and what the two phases of the handler return.\<close>

lemma findOne_seat_None:
  "findOne_seat st sid t seat = None \<longleftrightarrow> (\<forall>b\<in>set st. active b \<longrightarrow> seat_key b \<noteq> (sid, t, seat))"
  by (auto simp: findOne_seat_def find_None_iff active_def seat_key_def)

lemma check_phase_Inr:
  assumes "check_phase cat st a bd f = Inr b"
  shows "status b = Pending" and "\<forall>x\<in>set st. active x \<longrightarrow> seat_key x \<noteq> seat_key b"
    and "\<exists>sid t. scheduleId bd = Some sid \<and> req_travelDate bd = Some t
           \<and> seat_key b = (sid, t, trim (req_seatNumber bd))"
    and "bookingReference b = None" and "seatNumber b \<noteq> []"
proof -
  from assms obtain rid sid t fr vid where
    ids: "routeId bd = Some rid" "scheduleId bd = Some sid" "req_travelDate bd = Some t"
      "req_fare bd = Some fr"
    and none: "findOne_seat st sid t (trim (req_seatNumber bd)) = None"
    and ne: "trim (req_seatNumber bd) \<noteq> []"
    and b: "b = \<lparr>bid = new_id f, user = uid a, route = rid, schedule = sid,
                 vehicle = vid, travelDate = t,
                 seatNumber = trim (req_seatNumber bd), fare = fr, status = Pending,
                 paymentStatus = PayPending, bookingReference = None,
                 cancellationReason = None, cancelledAt = None, cancelledBy = None,
                 qrCode = None, checkInTime = None, checkOutTime = None\<rparr>"
    unfolding check_phase_def Let_def
    by (auto split: option.splits if_splits)
  show "status b = Pending" by (simp add: b)
  show "bookingReference b = None" by (simp add: b)
  show "seatNumber b \<noteq> []" using ne by (simp add: b)
  have k: "seat_key b = (sid, t, trim (req_seatNumber bd))" by (simp add: b seat_key_def)
  show "\<forall>x\<in>set st. active x \<longrightarrow> seat_key x \<noteq> seat_key b"
    using none unfolding k findOne_seat_None by simp
  show "\<exists>sid t. scheduleId bd = Some sid \<and> req_travelDate bd = Some t
           \<and> seat_key b = (sid, t, trim (req_seatNumber bd))"
    using ids k by simp
qed




lemma save_phase_invalid:
  assumes "validate schemaDate b \<noteq> []"
  shows "save_phase schemaDate f st b = (Thrown (ValidationError (validate schemaDate b)), st)"
  using assms by (simp add: save_phase_def)

lemma validate_reference:
  "bookingReference b = None \<Longrightarrow> validate schemaDate b \<noteq> []"
  by (simp add: validate_def blank_def)



lemma check_phase_Inl:
  "check_phase cat st a bd f = Inl r \<Longrightarrow> \<exists>n m c. r = Json n m c None \<and> n \<in> {400, 404, 409}"
  unfolding check_phase_def Let_def
  by (auto split: option.splits if_splits)














lemma trim_seat:
  "trim ''Seat 1'' = ''Seat 1''" "trim ''Seat 2'' = ''Seat 2''"
  "trim ''Seat 999'' = ''Seat 999''"
  by (simp_all add: trim_def ltrim_def rtrim_def white_space_def ws_len_def)




text \<open>A request that takes both of its steps in a row is the handler run at once.\<close>

lemma run_alone:
  "run schemaDate cat [0, 0] ([Start a bd f], st)
     = ([Finished (fst (create_route schemaDate cat st a bd f))],
        snd (create_route schemaDate cat st a bd f))"
  by (cases "check_phase cat st a bd f")
     (auto simp: proc_step_def create_route_def split: prod.splits)

text \<open>The answer of the handler does not depend on the capacity of the vehicles.\<close>

lemma find_schedule_map:
  assumes "\<And>s. sched_id (g s) = sched_id s"
  shows "find (\<lambda>s. sched_id s = sid) (map g xs)
           = map_option g (find (\<lambda>s. sched_id s = sid) xs)"
  using assms by (induction xs) auto

lemma check_phase_capacity:
  "check_phase
     (cat\<lparr>schedules :=
            map (\<lambda>s. s\<lparr>sched_vehicle := (sched_vehicle s)\<lparr>capacity := c s\<rparr>\<rparr>) (schedules cat)\<rparr>)
     st a bd f
   = check_phase cat st a bd f"
  unfolding check_phase_def Let_def
  by (simp add: find_schedule_map split: option.splits)

text \<open>
  C5, as the code has it. A request whose seat label is blank after trimming, or whose
  travel date is not an ISO 8601 date, is answered 400. A request whose travel date is
  earlier than the date fixed in the schema creates no booking and, once past the
  validators, the lookups and the seat query, fails with a validation error that
  names the travel date; a request whose travel date is not before the time of the
  request never fails with that message. The seat label is not compared with the
  capacity of the vehicle: no validation error names the seat, and the answer is the
  same whatever the capacities are.
\<close>

theorem reservation_validation:
  "(trim (req_seatNumber bd) = [] \<or> req_travelDate bd = None
      \<longrightarrow> create_route schemaDate cat st a bd f
            = (Json 400 ''Validation failed'' None None, st))
   \<and> (\<forall>t. req_travelDate bd = Some t \<and> t < schemaDate
        \<longrightarrow> snd (create_route schemaDate cat st a bd f) = st
            \<and> (\<forall>b. check_phase cat st a bd f = Inr b
                  \<longrightarrow> (\<exists>errs. fst (create_route schemaDate cat st a bd f)
                                 = Thrown (ValidationError errs)
                              \<and> ''Travel date cannot be in the past'' \<in> set errs)))
   \<and> (\<forall>t errs. req_travelDate bd = Some t \<and> schemaDate \<le> requestTime \<and> requestTime \<le> t
          \<and> fst (create_route schemaDate cat st a bd f) = Thrown (ValidationError errs)
        \<longrightarrow> ''Travel date cannot be in the past'' \<notin> set errs)
   \<and> (\<forall>errs. fst (create_route schemaDate cat st a bd f) = Thrown (ValidationError errs)
        \<longrightarrow> ''Seat number is required'' \<notin> set errs)
   \<and> create_route schemaDate
        (cat\<lparr>schedules :=
               map (\<lambda>s. s\<lparr>sched_vehicle := (sched_vehicle s)\<lparr>capacity := c s\<rparr>\<rparr>)
                   (schedules cat)\<rparr>)
        st a bd f
      = create_route schemaDate cat st a bd f"
proof (intro conjI impI allI)
  assume "trim (req_seatNumber bd) = [] \<or> req_travelDate bd = None"
  then show "create_route schemaDate cat st a bd f
            = (Json 400 ''Validation failed'' None None, st)"
    unfolding create_route_def check_phase_def Let_def
    by (auto split: option.splits)
next
  fix t
  assume h: "req_travelDate bd = Some t \<and> t < schemaDate"
  show "snd (create_route schemaDate cat st a bd f) = st"
  proof (cases "check_phase cat st a bd f")
    case (Inl r)
    then show ?thesis by (simp add: create_route_def)
  next
    case (Inr b)
    from check_phase_Inr(3)[OF Inr] h have "travelDate b = t" by (auto simp: seat_key_def)
    then show ?thesis using Inr h by (simp add: create_route_def save_phase_def validate_def)
  qed
next
  fix t b
  assume h: "req_travelDate bd = Some t \<and> t < schemaDate"
    and c: "check_phase cat st a bd f = Inr b"
  from check_phase_Inr(3)[OF c] h have "travelDate b = t" by (auto simp: seat_key_def)
  then have "fst (create_route schemaDate cat st a bd f)
                = Thrown (ValidationError (validate schemaDate b))
             \<and> ''Travel date cannot be in the past'' \<in> set (validate schemaDate b)"
    using c h by (simp add: create_route_def save_phase_def validate_def)
  then show "\<exists>errs. fst (create_route schemaDate cat st a bd f)
                                 = Thrown (ValidationError errs)
                              \<and> ''Travel date cannot be in the past'' \<in> set errs"
    by blast
next
  fix t errs
  assume h: "req_travelDate bd = Some t \<and> schemaDate \<le> requestTime \<and> requestTime \<le> t
          \<and> fst (create_route schemaDate cat st a bd f) = Thrown (ValidationError errs)"
  show "''Travel date cannot be in the past'' \<notin> set errs"
  proof (cases "check_phase cat st a bd f")
    case (Inl r)
    then show ?thesis using h check_phase_Inl[OF Inl] by (auto simp: create_route_def)
  next
    case (Inr b)
    from check_phase_Inr(3)[OF Inr] h have t: "travelDate b = t" by (auto simp: seat_key_def)
    obtain r st' where s: "save_phase schemaDate f st b = (r, st')"
      by (cases "save_phase schemaDate f st b")
    have "errs = validate schemaDate b"
      using h Inr by (auto simp: create_route_def save_phase_def insert_doc_def
                        split: if_splits)
    then show ?thesis using t h by (simp add: validate_def)
  qed
next
  fix errs
  assume h: "fst (create_route schemaDate cat st a bd f) = Thrown (ValidationError errs)"
  show "''Seat number is required'' \<notin> set errs"
  proof (cases "check_phase cat st a bd f")
    case (Inl r)
    then show ?thesis using h check_phase_Inl[OF Inl] by (auto simp: create_route_def)
  next
    case (Inr b)
    have "errs = validate schemaDate b"
      using h Inr by (auto simp: create_route_def save_phase_def insert_doc_def
                        split: if_splits)
    then show ?thesis using check_phase_Inr(5)[OF Inr] by (simp add: validate_def)
  qed
next
  show "create_route schemaDate
        (cat\<lparr>schedules :=
               map (\<lambda>s. s\<lparr>sched_vehicle := (sched_vehicle s)\<lparr>capacity := c s\<rparr>\<rparr>)
                   (schedules cat)\<rparr>)
        st a bd f
      = create_route schemaDate cat st a bd f"
    unfolding create_route_def check_phase_capacity by (rule refl)
qed

theorem reservation_validation_witness:
  "create_route 1741000000000 sample_catalog [] alice
       (sample_body [CHR 0xC2, CHR 0xA0] 1741564800000) fresh1
     = (Json 400 ''Validation failed'' None None, [])
   \<and> (\<exists>errs. fst (create_route 1741000000000 sample_catalog [] alice
                     (sample_body ''Seat 1'' 1740000000000) fresh1)
               = Thrown (ValidationError errs)
            \<and> ''Travel date cannot be in the past'' \<in> set errs)
   \<and> fst (create_route 1741000000000 sample_catalog [] alice
            (sample_body ''Seat 999'' 1741564800000) fresh1)
       = Thrown (ValidationError [''Path `bookingReference` is required.''])
   \<and> ''Travel date cannot be in the past''
       \<notin> set [''Path `bookingReference` is required.'']
   \<and> ''Seat number is required'' \<notin> set [''Path `bookingReference` is required.'']"
proof -
  have nbsp: "trim [CHR 0xC2, CHR 0xA0] = []"
    by (simp add: trim_def ltrim_def rtrim_def white_space_def ws_len_def)
  have past: "check_phase sample_catalog [] alice (sample_body ''Seat 1'' 1740000000000) fresh1
                = Inr (sample_draft 7 ''Seat 1'' 1740000000000 fresh1)"
    by (simp add: check_phase_def sample_catalog_def sample_body_def alice_def
          sample_draft_def findOne_seat_def trim_seat)
  have far: "fst (create_route 1741000000000 sample_catalog [] alice
            (sample_body ''Seat 999'' 1741564800000) fresh1)
       = Thrown (ValidationError [''Path `bookingReference` is required.''])"
    by (simp add: create_route_def check_phase_def save_phase_def validate_def blank_def
          sample_catalog_def sample_body_def findOne_seat_def trim_seat)
  have t1: "create_route 1741000000000 sample_catalog [] alice
               (sample_body [CHR 0xC2, CHR 0xA0] 1741564800000) fresh1
             = (Json 400 ''Validation failed'' None None, [])"
    using reservation_validation [of "sample_body [CHR 0xC2, CHR 0xA0] 1741564800000"
            1741000000000 sample_catalog "[]" alice fresh1 1741000000000] nbsp
    by (simp add: sample_body_def)
  have t2: "\<exists>errs. fst (create_route 1741000000000 sample_catalog [] alice
                     (sample_body ''Seat 1'' 1740000000000) fresh1)
               = Thrown (ValidationError errs)
            \<and> ''Travel date cannot be in the past'' \<in> set errs"
    using reservation_validation [of "sample_body ''Seat 1'' 1740000000000" 1741000000000
            sample_catalog "[]" alice fresh1 1741000000000] past
    by (simp add: sample_body_def)
  have t3: "''Travel date cannot be in the past''
              \<notin> set [''Path `bookingReference` is required.'']
            \<and> ''Seat number is required'' \<notin> set [''Path `bookingReference` is required.'']"
    using reservation_validation [of "sample_body ''Seat 999'' 1741564800000" 1741000000000
            sample_catalog "[]" alice fresh1 1741000000000] far
    by (simp add: sample_body_def)
  show ?thesis using t1 t2 t3 far by (intro conjI) simp_all
qed

text \<open>
  C5 as stated fails for the seat label. On a vehicle of capacity 50, the request for
  \<open>Seat 999\<close> is answered as the request for \<open>Seat 1\<close> is: \<open>booking.save()\<close> fails on the
  required booking reference, and the error names no seat. When a pending booking
  holds \<open>Seat 999\<close>, the request for it is answered 409, a conflict and not a validation
  error.
\<close>

theorem seat_label_counterexample:
  "capacity (sched_vehicle (hd (schedules sample_catalog))) = 50
   \<and> create_route 0 sample_catalog [] alice (sample_body ''Seat 999'' 1741564800000) fresh1
     = (Thrown (ValidationError [''Path `bookingReference` is required.'']), [])
   \<and> create_route 0 sample_catalog [] alice (sample_body ''Seat 1'' 1741564800000) fresh1
     = (Thrown (ValidationError [''Path `bookingReference` is required.'']), [])
   \<and> create_route 0 sample_catalog [sample_new_booking 7 ''Seat 999'' 1741564800000 fresh1]
        bob (sample_body ''Seat 999'' 1741564800000) fresh2
     = (Json 409 ''Seat already booked'' (Some ''SEAT_OCCUPIED'') None,
        [sample_new_booking 7 ''Seat 999'' 1741564800000 fresh1])"
  by (simp add: create_route_def check_phase_def save_phase_def validate_def blank_def
        sample_catalog_def sample_body_def alice_def bob_def fresh1_def fresh2_def
        sample_new_booking_def findOne_seat_def trim_seat)

section \<open>Forecast theorems\<close>

text \<open>
  C6, as the code has it. The seasonal factor is 5 when the month index is 11 or 0
  (December, January); otherwise -3 when the month index is 4 to 8; otherwise -5 on a
  Saturday or Sunday; otherwise 0. The first rule that matches decides.
\<close>

theorem seasonal_factor_rules:
  "(m_month d = 11 \<or> m_month d = 0 \<longrightarrow> getSeasonalFactor d = 5)
   \<and> (4 \<le> m_month d \<and> m_month d \<le> 8 \<longrightarrow> getSeasonalFactor d = - 3)
   \<and> (m_month d \<in> {1, 2, 3, 9, 10} \<and> (m_day d = 0 \<or> m_day d = 6)
        \<longrightarrow> getSeasonalFactor d = - 5)
   \<and> (m_month d \<in> {1, 2, 3, 9, 10} \<and> m_day d \<noteq> 0 \<and> m_day d \<noteq> 6
        \<longrightarrow> getSeasonalFactor d = 0)"
  by (auto simp: getSeasonalFactor_def Let_def)

theorem seasonal_factor_rules_witness:
  "getSeasonalFactor december_saturday = 5 \<and> getSeasonalFactor monday = 0"
  using seasonal_factor_rules [of december_saturday] seasonal_factor_rules [of monday]
  by (simp add: december_saturday_def monday_def)

text \<open>
  C6 as stated fails in November (month index 10): on a Wednesday of November the
  factor is 0, not 5.
\<close>

theorem november_counterexample: "getSeasonalFactor november_wednesday = 0"
  by (simp add: getSeasonalFactor_def november_wednesday_def)



text \<open>Sums of \<open>reduce\<close> as list sums, and the sign of a mean capacity.\<close>

lemma foldl_add_sum: "foldl (\<lambda>s d. s + f d) a xs = a + sum_list (map f xs)" for a :: int
  by (induction xs arbitrary: a) simp_all

lemma sum_capacity_pos:
  assumes "xs \<noteq> []" "\<forall>d\<in>set xs. 0 < s_capacity d"
  shows "0 < sum_capacity xs"
proof -
  obtain y ys where xs: "xs = y # ys" using assms(1) by (cases xs) auto
  have "0 \<le> sum_list (map s_capacity ys)"
    using assms(2) xs by (intro sum_list_nonneg) (auto simp: less_imp_le)
  moreover have "0 < s_capacity y" using assms(2) xs by simp
  ultimately show ?thesis by (simp add: sum_capacity_def foldl_add_sum xs)
qed

lemma Math_round_nonneg: "0 \<le> x \<Longrightarrow> 0 \<le> Math_round x"
  by (simp add: Math_round_def)

lemma mock_bounds:
  assumes "random_source rnd"
  shows "20 \<le> predicted_count (generateMockPrediction rnd r d)"
    and "0 \<le> utilization_pct (generateMockPrediction rnd r d)"
    and "utilization_pct (generateMockPrediction rnd r d) \<le> 100"
    and "70 \<le> confidence (generateMockPrediction rnd r d)"
    and "confidence (generateMockPrediction rnd r d) < 90"
proof -
  have r0: "0 \<le> rnd 0" "rnd 0 < 1" and r1: "0 \<le> rnd 1" and r2: "0 \<le> rnd 2" "rnd 2 < 1"
    using assms by (auto simp: random_source_def)
  have c: "(0::int) \<le> \<lfloor>rnd 1 * 50\<rfloor>" using r1 by simp
  show "20 \<le> predicted_count (generateMockPrediction rnd r d)"
    using r0 by (simp add: generateMockPrediction_def Let_def le_floor_iff)
  have "0 \<le> (20 + rnd 0 * 30) / real_of_int (50 + \<lfloor>rnd 1 * 50\<rfloor>) * 100"
    using r0 c by (intro mult_nonneg_nonneg divide_nonneg_nonneg) auto
  then show "0 \<le> utilization_pct (generateMockPrediction rnd r d)"
    by (simp add: generateMockPrediction_def Let_def Math_round_nonneg)
  show "utilization_pct (generateMockPrediction rnd r d) \<le> 100"
    by (simp add: generateMockPrediction_def Let_def)
  show "70 \<le> confidence (generateMockPrediction rnd r d)"
    using r2 by (simp add: generateMockPrediction_def Let_def)
  show "confidence (generateMockPrediction rnd r d) < 90"
    using r2 by (simp add: generateMockPrediction_def Let_def)
qed

lemma utilization_nonneg:
  assumes "xs \<noteq> []" "\<forall>d\<in>set xs. 0 < s_capacity d"
  shows "0 \<le> min 100 (Math_round (real_of_int (max 0 z)
                 / (real_of_int (sum_capacity xs) / real (length xs)) * 100))"
proof -
  define avg where "avg = real_of_int (sum_capacity xs) / real (length xs)"
  have "0 < avg"
    using sum_capacity_pos[OF assms] assms(1) by (simp add: avg_def)
  then have "0 \<le> real_of_int (max 0 z) / avg * 100"
    by (simp add: divide_nonneg_pos)
  then have "0 \<le> Math_round (real_of_int (max 0 z) / avg * 100)"
    by (rule Math_round_nonneg)
  then show ?thesis unfolding avg_def by simp
qed

text \<open>The two outcomes of \<open>getPrediction\<close>.\<close>

lemma getPrediction_mock:
  "filter (\<lambda>x. s_route x = r) historicalData = []
   \<or> filter (\<lambda>x. m_day (s_date x) = m_day d \<and> Some (s_hour x) = targetHour h)
              (filter (\<lambda>x. s_route x = r) historicalData) = []
   \<Longrightarrow> getPrediction rnd historicalData r d h = generateMockPrediction rnd r d"
  unfolding getPrediction_def Let_def by (elim disjE) simp_all

lemma getPrediction_historical:
  assumes "filter (\<lambda>x. s_route x = r) historicalData \<noteq> []"
    and "sh = filter (\<lambda>x. m_day (s_date x) = m_day d \<and> Some (s_hour x) = targetHour h)
              (filter (\<lambda>x. s_route x = r) historicalData)"
    and "sh \<noteq> []"
    and "pb = max 0 \<lfloor>real_of_int (sum_bookings sh) / real (length sh) + calculateTrend sh
                       + (rnd 0 - 1 / 2) * 10 + real_of_int (getSeasonalFactor d)\<rfloor>"
  shows "getPrediction rnd historicalData r d h =
           \<lparr>p_route = r, datetime = d, predicted_count = pb,
            p_capacity = \<lfloor>real_of_int (sum_capacity sh) / real (length sh)\<rfloor>,
            utilization_pct = min 100 (Math_round (real_of_int pb
                / (real_of_int (sum_capacity sh) / real (length sh)) * 100)),
            confidence = min 95 (max 60 (100 - \<bar>calculateTrend sh\<bar> * 2)),
            explanation = generateExplanation pb
                (real_of_int (sum_capacity sh) / real (length sh)) (calculateTrend sh) d\<rparr>"
  using assms(1,3) unfolding getPrediction_def Let_def assms(2)[symmetric] assms(4)[symmetric]
  by (simp only: length_0_conv if_False)

lemma service_bounds:
  assumes "random_source rnd" and "\<forall>x\<in>set historicalData. 0 < s_capacity x"
  shows "0 \<le> predicted_count (getPrediction rnd historicalData r d h)
       \<and> 0 \<le> utilization_pct (getPrediction rnd historicalData r d h)
       \<and> utilization_pct (getPrediction rnd historicalData r d h) \<le> 100
       \<and> 60 \<le> confidence (getPrediction rnd historicalData r d h)
       \<and> confidence (getPrediction rnd historicalData r d h) \<le> 95"
proof -
  let ?rd = "filter (\<lambda>x. s_route x = r) historicalData"
  define sh where
    "sh = filter (\<lambda>x. m_day (s_date x) = m_day d \<and> Some (s_hour x) = targetHour h) ?rd"
  show ?thesis
  proof (cases "?rd = [] \<or> sh = []")
    case True
    then have "getPrediction rnd historicalData r d h = generateMockPrediction rnd r d"
      unfolding sh_def by (rule getPrediction_mock)
    then show ?thesis using mock_bounds[OF assms(1), of r d] by simp
  next
    case False
    then have ne: "sh \<noteq> []" and rne: "?rd \<noteq> []" by simp_all
    have pos: "\<forall>x\<in>set sh. 0 < s_capacity x" using assms(2) by (simp add: sh_def)
    define z where
      "z = \<lfloor>real_of_int (sum_bookings sh) / real (length sh) + calculateTrend sh
              + (rnd 0 - 1 / 2) * 10 + real_of_int (getSeasonalFactor d)\<rfloor>"
    define u where "u = min 100 (Math_round (real_of_int (max 0 z)
                / (real_of_int (sum_capacity sh) / real (length sh)) * 100))"
    define c where "c = min 95 (max 60 (100 - \<bar>calculateTrend sh\<bar> * 2))"
    have eq: "getPrediction rnd historicalData r d h =
           \<lparr>p_route = r, datetime = d, predicted_count = max 0 z,
            p_capacity = \<lfloor>real_of_int (sum_capacity sh) / real (length sh)\<rfloor>,
            utilization_pct = u,
            confidence = c,
            explanation = generateExplanation (max 0 z)
                (real_of_int (sum_capacity sh) / real (length sh)) (calculateTrend sh) d\<rparr>"
      unfolding u_def c_def
      by (rule getPrediction_historical[OF rne sh_def ne]) (simp add: z_def)
    have u0: "0 \<le> u" unfolding u_def by (rule utilization_nonneg[OF ne pos])
    have u1: "u \<le> 100" unfolding u_def by simp
    have c0: "60 \<le> c" and c1: "c \<le> 95" unfolding c_def by simp_all
    show ?thesis unfolding eq using u0 u1 c0 c1 by simp
  qed
qed

lemma mockData_bounds:
  assumes "random_source rnd"
  shows "10 \<le> predicted_count (mockData rnd r d) \<and> predicted_count (mockData rnd r d) \<le> 59
       \<and> 20 \<le> utilization_pct (mockData rnd r d) \<and> utilization_pct (mockData rnd r d) \<le> 99
       \<and> 70 \<le> confidence (mockData rnd r d) \<and> confidence (mockData rnd r d) \<le> 99"
proof -
  have r: "0 \<le> rnd 0" "rnd 0 < 1" "0 \<le> rnd 1" "rnd 1 < 1" "0 \<le> rnd 2" "rnd 2 < 1"
    using assms by (auto simp: random_source_def)
  have a: "0 \<le> \<lfloor>rnd 0 * 50\<rfloor>" "\<lfloor>rnd 0 * 50\<rfloor> \<le> 49"
    using r(1,2) by (simp_all add: floor_le_iff)
  have b: "0 \<le> \<lfloor>rnd 1 * 80\<rfloor>" "\<lfloor>rnd 1 * 80\<rfloor> \<le> 79"
    using r(3,4) by (simp_all add: floor_le_iff)
  have c: "0 \<le> \<lfloor>rnd 2 * 30\<rfloor>" "\<lfloor>rnd 2 * 30\<rfloor> \<le> 29"
    using r(5,6) by (simp_all add: floor_le_iff)
  have c': "70 \<le> real_of_int (\<lfloor>rnd 2 * 30\<rfloor> + 70)" "real_of_int (\<lfloor>rnd 2 * 30\<rfloor> + 70) \<le> 99"
    using c by linarith+
  show ?thesis using a b c' by (simp add: mockData_def)
qed



text \<open>
  C7, as the code has it. With a random source in the unit interval and historical
  records of positive capacity, every prediction of the service, on the historical path
  and on its mock path, has a count of at least 0, a utilization from 0 to 100 and a
  confidence from 60 to 95. The mock data of the backend proxy have a count from 10 to
  59, a utilization from 20 to 99 and a confidence from 70 to 99.
\<close>

theorem prediction_bounds:
  assumes "random_source rnd" and "\<forall>x\<in>set historicalData. 0 < s_capacity x"
  shows "0 \<le> predicted_count (getPrediction rnd historicalData r d h)
       \<and> 0 \<le> utilization_pct (getPrediction rnd historicalData r d h)
       \<and> utilization_pct (getPrediction rnd historicalData r d h) \<le> 100
       \<and> 60 \<le> confidence (getPrediction rnd historicalData r d h)
       \<and> confidence (getPrediction rnd historicalData r d h) \<le> 95
       \<and> 0 \<le> predicted_count (generateMockPrediction rnd r d)
       \<and> 0 \<le> utilization_pct (generateMockPrediction rnd r d)
       \<and> utilization_pct (generateMockPrediction rnd r d) \<le> 100
       \<and> 60 \<le> confidence (generateMockPrediction rnd r d)
       \<and> confidence (generateMockPrediction rnd r d) \<le> 95
       \<and> 10 \<le> predicted_count (mockData rnd r d)
       \<and> predicted_count (mockData rnd r d) \<le> 59
       \<and> 20 \<le> utilization_pct (mockData rnd r d)
       \<and> utilization_pct (mockData rnd r d) \<le> 99
       \<and> 70 \<le> confidence (mockData rnd r d)
       \<and> confidence (mockData rnd r d) \<le> 99"
  using service_bounds[OF assms, of r d h] mock_bounds[OF assms(1), of r d]
    mockData_bounds[OF assms(1), of r d]
  by simp

theorem prediction_bounds_witness:
  "random_source (const_rnd (1 / 2))
   \<and> list_all (\<lambda>x. 0 < s_capacity x) (one_record 0 50)
   \<and> 0 \<le> utilization_pct (getPrediction (const_rnd (1 / 2)) (one_record 0 50) ''R'' monday
                              (JStr ''0''))
   \<and> confidence (getPrediction (const_rnd (1 / 2)) (one_record 0 50) ''R'' monday (JStr ''0''))
       \<le> 95
   \<and> confidence (mockData (const_rnd (1 / 2)) ''R'' monday) \<le> 99"
proof -
  have a: "random_source (const_rnd (1 / 2))"
    by (simp add: random_source_def const_rnd_def)
  have b: "\<forall>x\<in>set (one_record 0 50). 0 < s_capacity x"
    by (simp add: one_record_def)
  show ?thesis
    using a b prediction_bounds [OF a b, of "''R''" monday "JStr ''0''"]
    by (simp add: list_all_iff)
qed

text \<open>
  C7 as stated fails on the mock data of the backend proxy, whose confidence is 97 when
  \<open>Math.random\<close> returns 0.9, and on a historical record of negative capacity, where
  the utilization is negative.
\<close>

theorem prediction_bounds_counterexample:
  "forecast_predict_route (const_rnd (9 / 10)) None (Some ''R'') (Some monday)
     = PredictOk (mockData (const_rnd (9 / 10)) ''R'' monday)
         (Some ''Using mock data - forecast service unavailable'')
   \<and> confidence (mockData (const_rnd (9 / 10)) ''R'' monday) = 97
   \<and> utilization_pct (getPrediction (const_rnd (1 / 2)) (one_record 9 (- 50)) ''R'' monday
                        Undefined) = - 20"
  by (simp add: forecast_predict_route_def mockData_def const_rnd_def getPrediction_def
        one_record_def targetHour_def truthy_def monday_def sum_bookings_def sum_capacity_def
        calculateTrend_def getSeasonalFactor_def Math_round_def Let_def)

text \<open>Shape of the analytics, on the mock and on the computed path.\<close>

lemma generateExplanation_nonempty: "generateExplanation pb c t d \<noteq> []"
  by (simp add: generateExplanation_def)

lemma getPrediction_explanation: "explanation (getPrediction rnd historicalData r d h) \<noteq> []"
proof -
  let ?rd = "filter (\<lambda>x. s_route x = r) historicalData"
  define sh where
    "sh = filter (\<lambda>x. m_day (s_date x) = m_day d \<and> Some (s_hour x) = targetHour h) ?rd"
  show ?thesis
  proof (cases "?rd = [] \<or> sh = []")
    case True
    then have "getPrediction rnd historicalData r d h = generateMockPrediction rnd r d"
      unfolding sh_def by (rule getPrediction_mock)
    then show ?thesis by (simp add: generateMockPrediction_def Let_def)
  next
    case False
    then have ne: "sh \<noteq> []" and rne: "?rd \<noteq> []" by simp_all
    show ?thesis
      unfolding getPrediction_historical[OF rne sh_def ne refl]
      by (simp add: generateExplanation_nonempty)
  qed
qed

lemma map_throw_length: "map_throw f xs = Inr ys \<Longrightarrow> length ys = length xs"
  by (induction xs arbitrary: ys) (auto split: sum.splits)

lemma generateRecommendations_nonempty:
  "generateRecommendations u data = Inr recs \<Longrightarrow> recs \<noteq> []"
  unfolding generateRecommendations_def Let_def
  by (auto split: sum.splits if_splits)

lemma generateMockAnalytics_valid: "analytics_valid (generateMockAnalytics clk rnd)"
  by (simp add: analytics_valid_def generateMockAnalytics_def generateMockHeatmap_def
        generateMockWeeklyTrend_def generateMockHourlyTrend_def day_names_def list_all_iff
        split_beta)

lemma getAnalytics_try_valid:
  assumes "getAnalytics_try clk rnd historicalData rid startDate endDate = Inr a"
  shows "analytics_valid a"
proof -
  define routeData where "routeData = filter (\<lambda>d. isBetween (s_date d)
       (case startDate of Some s \<Rightarrow> s | None \<Rightarrow> thirtyDaysAgo clk)
       (case endDate of Some e \<Rightarrow> e | None \<Rightarrow> today clk)) historicalData"
  show ?thesis
  proof (cases "length routeData = 0")
    case True
    then have "a = generateMockAnalytics clk rnd"
      using assms unfolding getAnalytics_try_def Let_def routeData_def[symmetric]
      by (simp only: HOL.simp_thms if_True sum.inject)
    then show ?thesis by (simp only: generateMockAnalytics_valid)
  next
    case False
    from assms obtain hourlyTrend recs where
      h: "generateHourlyTrend routeData = Inr hourlyTrend"
      and r: "generateRecommendations
                (real_of_int (sum_bookings routeData)
                   / (real (length routeData)
                        * (real_of_int (sum_capacity routeData) / real (length routeData)))
                   * 100) routeData = Inr recs"
      and hh: "heatmap a = generateHeatmapData routeData"
      and ww: "weekly a = generateWeeklyTrend routeData"
      and ho: "hourly a = hourlyTrend"
      and rr: "recommendations a = recs"
      unfolding getAnalytics_try_def Let_def routeData_def[symmetric]
      using False by (auto split: sum.splits)
    have "length hourlyTrend = 24"
      using h unfolding generateHourlyTrend_def by (auto dest: map_throw_length)
    moreover have "recs \<noteq> []" using r by (rule generateRecommendations_nonempty)
    ultimately show ?thesis
      unfolding analytics_valid_def hh ww ho rr
      by (simp add: generateHeatmapData_def generateWeeklyTrend_def day_names_def list_all_iff)
  qed
qed

lemma getAnalytics_valid:
  "analytics_valid (getAnalytics clk rnd historicalData rid startDate endDate)"
proof (cases "getAnalytics_try clk rnd historicalData rid startDate endDate")
  case (Inl e)
  then show ?thesis unfolding getAnalytics_def
    by (simp only: sum.case generateMockAnalytics_valid)
next
  case (Inr a)
  then have "analytics_valid a" by (rule getAnalytics_try_valid)
  with Inr show ?thesis unfolding getAnalytics_def by (simp only: sum.case)
qed

lemma getAnalytics_empty_window:
  assumes "filter (\<lambda>x. isBetween (s_date x)
                      (case startDate of Some s \<Rightarrow> s | None \<Rightarrow> thirtyDaysAgo clk)
                      (case endDate of Some e \<Rightarrow> e | None \<Rightarrow> today clk)) historicalData = []"
  shows "getAnalytics clk rnd historicalData rid startDate endDate
           = generateMockAnalytics clk rnd"
  unfolding getAnalytics_def getAnalytics_try_def Let_def assms
  by (simp only: list.size HOL.simp_thms if_True sum.case)

text \<open>
  C8. \<open>getPrediction\<close> and \<open>getAnalytics\<close> return for every input. The prediction has a
  non-empty explanation and is the mock prediction when no record of the route, or none
  of the day of week and hour, exists. The analytics have a heat map of 7 rows of 24
  cells, 7 weekly points, 24 hourly points and at least one recommendation, and are the
  mock analytics when no record lies in the window or when the \<open>try\<close> block throws.
\<close>

theorem forecast_total:
  "explanation (getPrediction rnd historicalData r d h) \<noteq> []
   \<and> (filter (\<lambda>x. s_route x = r) historicalData = []
        \<longrightarrow> getPrediction rnd historicalData r d h = generateMockPrediction rnd r d)
   \<and> (filter (\<lambda>x. m_day (s_date x) = m_day d \<and> Some (s_hour x) = targetHour h)
         (filter (\<lambda>x. s_route x = r) historicalData) = []
        \<longrightarrow> getPrediction rnd historicalData r d h = generateMockPrediction rnd r d)
   \<and> explanation (generateMockPrediction rnd r d) \<noteq> []
   \<and> analytics_valid (getAnalytics clk rnd historicalData rid startDate endDate)
   \<and> (filter (\<lambda>x. isBetween (s_date x)
                  (case startDate of Some s \<Rightarrow> s | None \<Rightarrow> thirtyDaysAgo clk)
                  (case endDate of Some e \<Rightarrow> e | None \<Rightarrow> today clk)) historicalData = []
        \<longrightarrow> getAnalytics clk rnd historicalData rid startDate endDate
              = generateMockAnalytics clk rnd)
   \<and> (\<forall>e. getAnalytics_try clk rnd historicalData rid startDate endDate = Inl e
        \<longrightarrow> getAnalytics clk rnd historicalData rid startDate endDate
              = generateMockAnalytics clk rnd)
   \<and> analytics_valid (generateMockAnalytics clk rnd)"
proof (intro conjI impI allI)
  show "explanation (getPrediction rnd historicalData r d h) \<noteq> []"
    by (rule getPrediction_explanation)
  show "explanation (generateMockPrediction rnd r d) \<noteq> []"
    by (simp add: generateMockPrediction_def Let_def)
  show "analytics_valid (getAnalytics clk rnd historicalData rid startDate endDate)"
    by (rule getAnalytics_valid)
  show "analytics_valid (generateMockAnalytics clk rnd)"
    by (rule generateMockAnalytics_valid)
next
  assume "filter (\<lambda>x. s_route x = r) historicalData = []"
  then show "getPrediction rnd historicalData r d h = generateMockPrediction rnd r d"
    by (intro getPrediction_mock disjI1)
next
  assume "filter (\<lambda>x. m_day (s_date x) = m_day d \<and> Some (s_hour x) = targetHour h)
            (filter (\<lambda>x. s_route x = r) historicalData) = []"
  then show "getPrediction rnd historicalData r d h = generateMockPrediction rnd r d"
    by (intro getPrediction_mock disjI2)
next
  assume "filter (\<lambda>x. isBetween (s_date x)
                  (case startDate of Some s \<Rightarrow> s | None \<Rightarrow> thirtyDaysAgo clk)
                  (case endDate of Some e \<Rightarrow> e | None \<Rightarrow> today clk)) historicalData = []"
  then show "getAnalytics clk rnd historicalData rid startDate endDate
               = generateMockAnalytics clk rnd"
    by (rule getAnalytics_empty_window)
next
  fix e
  assume "getAnalytics_try clk rnd historicalData rid startDate endDate = Inl e"
  then show "getAnalytics clk rnd historicalData rid startDate endDate
               = generateMockAnalytics clk rnd"
    unfolding getAnalytics_def by (simp only: sum.case)
qed

theorem forecast_total_witness:
  "filter (\<lambda>x. s_route x = ''R'') [] = []
   \<and> getPrediction (const_rnd (1 / 2)) [] ''R'' monday Undefined
       = generateMockPrediction (const_rnd (1 / 2)) ''R'' monday
   \<and> explanation (getPrediction (const_rnd (1 / 2)) [] ''R'' monday Undefined) \<noteq> []
   \<and> getAnalytics sample_clock (const_rnd (1 / 2)) [] ''R'' None None
       = generateMockAnalytics sample_clock (const_rnd (1 / 2))
   \<and> analytics_valid (getAnalytics sample_clock (const_rnd (1 / 2)) [] ''R'' None None)"
  using forecast_total [of "const_rnd (1 / 2)" "[]" "''R''" monday Undefined sample_clock
          "''R''" None None]
  by simp

text \<open>The hourly trend throws as soon as one record has an hour from 0 to 23.\<close>

lemma hourly_point_error:
  "hourly_point data h = Inl e \<Longrightarrow> e = ReferenceError ''dayData is not defined''"
  unfolding hourly_point_def Let_def by (simp split: if_splits)

lemma hourly_point_throws:
  assumes "x \<in> set data" "0 \<le> s_hour x"
  shows "hourly_point data (nat (s_hour x)) = Inl (ReferenceError ''dayData is not defined'')"
proof -
  have "x \<in> set (filter (\<lambda>d. s_hour d = int (nat (s_hour x))) data)"
    using assms by simp
  then have "length (filter (\<lambda>d. s_hour d = int (nat (s_hour x))) data) > 0"
    by (simp only: length_greater_0_conv) (metis empty_iff empty_set)
  then show ?thesis unfolding hourly_point_def Let_def by (simp only: if_True)
qed

lemma map_throw_Inl:
  assumes "x \<in> set xs" "f x = Inl e" "\<And>y e'. f y = Inl e' \<Longrightarrow> e' = e"
  shows "map_throw f xs = Inl e"
  using assms(1)
proof (induction xs)
  case Nil
  then show ?case by simp
next
  case (Cons a as)
  show ?case
  proof (cases "f a")
    case (Inl e')
    then have "e' = e" by (rule assms(3))
    with Inl show ?thesis by simp
  next
    case (Inr y)
    then have "a \<noteq> x" using assms(2) by auto
    then have "x \<in> set as" using Cons.prems by simp
    then have "map_throw f as = Inl e" by (rule Cons.IH)
    with Inr show ?thesis by simp
  qed
qed

lemma generateHourlyTrend_throws:
  assumes "x \<in> set data" "0 \<le> s_hour x" "s_hour x < 24"
  shows "generateHourlyTrend data = Inl (ReferenceError ''dayData is not defined'')"
  unfolding generateHourlyTrend_def
proof (rule map_throw_Inl)
  show "nat (s_hour x) \<in> set [0..<24]" using assms(2,3) by simp
  show "hourly_point data (nat (s_hour x)) = Inl (ReferenceError ''dayData is not defined'')"
    using assms(1,2) by (rule hourly_point_throws)
  show "\<And>y e'. hourly_point data y = Inl e' \<Longrightarrow> e' = ReferenceError ''dayData is not defined''"
    by (rule hourly_point_error)
qed

lemma getAnalytics_try_throws:
  assumes "x \<in> set historicalData"
    and "isBetween (s_date x) (case startDate of Some s \<Rightarrow> s | None \<Rightarrow> thirtyDaysAgo clk)
            (case endDate of Some e \<Rightarrow> e | None \<Rightarrow> today clk)"
    and "0 \<le> s_hour x" "s_hour x < 24"
  shows "getAnalytics_try clk rnd historicalData rid startDate endDate
           = Inl (ReferenceError ''dayData is not defined'')"
proof -
  define routeData where "routeData = filter (\<lambda>d. isBetween (s_date d)
       (case startDate of Some s \<Rightarrow> s | None \<Rightarrow> thirtyDaysAgo clk)
       (case endDate of Some e \<Rightarrow> e | None \<Rightarrow> today clk)) historicalData"
  have mem: "x \<in> set routeData" using assms(1,2) by (simp add: routeData_def)
  then have ne: "length routeData \<noteq> 0" by auto
  have thr: "generateHourlyTrend routeData = Inl (ReferenceError ''dayData is not defined'')"
    using mem assms(3,4) by (rule generateHourlyTrend_throws)
  show ?thesis
    unfolding getAnalytics_try_def Let_def routeData_def[symmetric]
    by (simp only: ne thr if_False sum.case)
qed

text \<open>
  C9 on the code. With one record of 10 bookings and capacity 50 at 9 o'clock inside the
  window, the formula of the claim gives an average of 20; the \<open>try\<close> block throws the
  \<open>ReferenceError\<close> and \<open>getAnalytics\<close> returns the mock structure, whose average is 65.
\<close>

theorem analytics_returns_mock_on_data:
  "getAnalytics_try sample_clock (const_rnd (1 / 2)) (one_record 9 50) ''R'' None None
     = Inl (ReferenceError ''dayData is not defined'')
   \<and> getAnalytics sample_clock (const_rnd (1 / 2)) (one_record 9 50) ''R'' None None
     = generateMockAnalytics sample_clock (const_rnd (1 / 2))
   \<and> average (utilization (getAnalytics sample_clock (const_rnd (1 / 2)) (one_record 9 50)
                              ''R'' None None)) = 65
   \<and> Math_round (real_of_int (sum_bookings (one_record 9 50))
                   / (real (length (one_record 9 50))
                      * (real_of_int (sum_capacity (one_record 9 50))
                           / real (length (one_record 9 50)))) * 100) = 20"
proof -
  have t: "getAnalytics_try sample_clock (const_rnd (1 / 2)) (one_record 9 50) ''R'' None None
             = Inl (ReferenceError ''dayData is not defined'')"
    by (rule getAnalytics_try_throws[of "hd (one_record 9 50)"])
       (simp_all add: one_record_def isBetween_def sample_clock_def monday_def)
  then have g: "getAnalytics sample_clock (const_rnd (1 / 2)) (one_record 9 50) ''R'' None None
             = generateMockAnalytics sample_clock (const_rnd (1 / 2))"
    unfolding getAnalytics_def by (simp only: sum.case)
  have f: "Math_round (real_of_int (sum_bookings (one_record 9 50))
                   / (real (length (one_record 9 50))
                      * (real_of_int (sum_capacity (one_record 9 50))
                           / real (length (one_record 9 50)))) * 100) = 20"
    by (simp add: one_record_def sum_bookings_def sum_capacity_def Math_round_def)
  show ?thesis using t g f by (simp add: generateMockAnalytics_def)
qed

text \<open>
  C10, as the code has it. The default hour 9 is used whenever the \<open>hour\<close> argument is
  falsy: \<open>undefined\<close>, the number 0 or the empty string; the prediction is then the one
  of an omitted hour. The string \<open>"0"\<close> is truthy and gives the target hour 0, and the
  controller passes the query parameter as a string.
\<close>

theorem hour_default_on_falsy:
  "(\<not> truthy hour \<longrightarrow>
      targetHour hour = Some 9
      \<and> getPrediction rnd historicalData r d hour = getPrediction rnd historicalData r d Undefined)
   \<and> \<not> truthy Undefined \<and> \<not> truthy (JNum 0) \<and> \<not> truthy (JStr [])
   \<and> truthy (JStr ''0'') \<and> targetHour (JStr ''0'') = Some 0
   \<and> (r \<noteq> [] \<longrightarrow>
        predict rnd historicalData (Some r) (Some d) (Some s)
          = PredictOk (getPrediction rnd historicalData r d (JStr s)) None
        \<and> predict rnd historicalData (Some r) (Some d) None
          = PredictOk (getPrediction rnd historicalData r d Undefined) None)"
proof -
  have a: "\<not> truthy hour \<longrightarrow> targetHour hour = Some 9"
    by (simp add: targetHour_def)
  have b: "targetHour Undefined = Some 9"
    by (simp add: targetHour_def truthy_def)
  have c: "\<not> truthy hour \<longrightarrow>
      getPrediction rnd historicalData r d hour = getPrediction rnd historicalData r d Undefined"
    using a b unfolding getPrediction_def by (simp only:) simp
  have e: "targetHour (JStr ''0'') = Some 0"
    by (simp add: targetHour_def truthy_def parseInt_def parseInt_string_def ltrim_def white_space_def ws_len_def
          digit_of_def)
  show ?thesis using a c e by (simp add: truthy_def predict_def)
qed

theorem hour_default_on_falsy_witness:
  "\<not> truthy (JNum 0)
   \<and> targetHour (JNum 0) = Some 9
   \<and> getPrediction (const_rnd (1 / 2)) (one_record 0 50) ''R'' monday (JNum 0)
       = getPrediction (const_rnd (1 / 2)) (one_record 0 50) ''R'' monday Undefined
   \<and> predict (const_rnd (1 / 2)) (one_record 0 50) (Some ''R'') (Some monday) (Some ''0'')
       = PredictOk (getPrediction (const_rnd (1 / 2)) (one_record 0 50) ''R'' monday
                      (JStr ''0'')) None"
  using hour_default_on_falsy [of "JNum 0" "const_rnd (1 / 2)" "one_record 0 50" "''R''"
          monday "''0''"]
  by (simp add: truthy_def)

text \<open>
  C10 as stated fails for the request \<open>?hour=0\<close>: the controller passes the string
  \<open>"0"\<close>, the record of hour 0 is used and the count is 10, while the request without
  an hour falls back to the mock prediction, whose count is 35.
\<close>

theorem hour_zero_counterexample:
  "predict (const_rnd (1 / 2)) (one_record 0 50) (Some ''R'') (Some monday) (Some ''0'')
     = PredictOk (getPrediction (const_rnd (1 / 2)) (one_record 0 50) ''R'' monday (JStr ''0''))
         None
   \<and> predicted_count (getPrediction (const_rnd (1 / 2)) (one_record 0 50) ''R'' monday
                        (JStr ''0'')) = 10
   \<and> predict (const_rnd (1 / 2)) (one_record 0 50) (Some ''R'') (Some monday) None
     = PredictOk (getPrediction (const_rnd (1 / 2)) (one_record 0 50) ''R'' monday Undefined)
         None
   \<and> predicted_count (getPrediction (const_rnd (1 / 2)) (one_record 0 50) ''R'' monday
                        Undefined) = 35"
  by (simp add: predict_def getPrediction_def one_record_def targetHour_def truthy_def
        parseInt_def parseInt_string_def ltrim_def white_space_def ws_len_def digit_of_def monday_def sum_bookings_def
        sum_capacity_def calculateTrend_def getSeasonalFactor_def Math_round_def Let_def
        generateMockPrediction_def const_rnd_def)


end
